theory Spec2Isabelle
  imports Main "HOL-Library.Word"
begin

section \<open>Key event decoder (keyboard-printer-v2-api.js)\<close>

text \<open>
  JavaScript strings that the decoder handles are ASCII; they are modelled as HOL
  strings. \<open>getCharFromKeyCode\<close> returns either a string or \<open>null\<close>.
\<close>

datatype js_result = JNull | JStr string

text \<open>The table \<open>keyCodeMap\<close> (lines 60-74), entries in source order.\<close>

definition keyCodeMap_entries :: "(nat \<times> string) list" where
  "keyCodeMap_entries =
    [(1, ''ESC''), (2, ''1''), (3, ''2''), (4, ''3''), (5, ''4''), (6, ''5''), (7, ''6''),
     (8, ''7''), (9, ''8''), (10, ''9''),
     (11, ''0''), (12, ''-''), (13, ''=''), (14, ''BACKSPACE''), (15, ''TAB''), (16, ''q''),
     (17, ''w''), (18, ''e''), (19, ''r''),
     (20, ''t''), (21, ''y''), (22, ''u''), (23, ''i''), (24, ''o''), (25, ''p''), (26, ''[''),
     (27, '']''), (28, ''ENTER''),
     (29, ''CTRL''), (30, ''a''), (31, ''s''), (32, ''d''), (33, ''f''), (34, ''g''), (35, ''h''),
     (36, ''j''), (37, ''k''),
     (38, ''l''), (39, '';''), (40, [CHR 0x27]), (41, [CHR 0x60]), (42, ''SHIFT''),
     (43, [CHR 0x5C]), (44, ''z''), (45, ''x''), (46, ''c''),
     (47, ''v''), (48, ''b''), (49, ''n''), (50, ''m''), (51, '',''), (52, ''.''), (53, ''/''),
     (54, ''RSHIFT''),
     (56, ''LALT''), (57, ''SPACE''), (58, ''CAPSLOCK''), (59, ''F1''), (60, ''F2''),
     (61, ''F3''), (62, ''F4''),
     (63, ''F5''), (64, ''F6''), (65, ''F7''), (66, ''F8''), (67, ''F9''), (68, ''F10''),
     (87, ''F11''), (88, ''F12''),
     (96, ''ENTER''), (97, ''RCTRL''), (102, ''HOME''), (103, ''UP''), (104, ''PGUP''),
     (105, ''LEFT''),
     (106, ''RIGHT''), (107, ''END''), (108, ''DOWN''), (109, ''PGDN''), (110, ''INS''),
     (111, ''DEL''),
     (71, ''7''), (72, ''8''), (73, ''9''), (74, ''-''), (75, ''4''), (76, ''5''), (77, ''6''),
     (78, ''+''), (79, ''1''),
     (80, ''2''), (81, ''3''), (82, ''0''), (83, ''.''), (84, ''ENTER'')]"

definition keyCodeMap :: "nat \<Rightarrow> string option" where
  "keyCodeMap = map_of keyCodeMap_entries"

text \<open>The table \<open>shiftMap\<close> local to \<open>getCharFromKeyCode\<close> (lines 255-261).\<close>

definition shiftMap_entries :: "(string \<times> string) list" where
  "shiftMap_entries =
    [(''1'', ''!''), (''2'', ''@''), (''3'', ''#''), (''4'', ''$''), (''5'', ''%''),
     (''6'', ''^''), (''7'', ''&''), (''8'', ''*''), (''9'', ''(''), (''0'', '')''),
     (''-'', ''_''), (''='', ''+''), (''['', ''{''), ('']'', ''}''), ([CHR 0x5C], ''|''),
     ('';'', '':''), ([CHR 0x27], [CHR 0x22]), ('','', ''<''), (''.'', ''>''), (''/'', ''?''),
     ([CHR 0x60], ''~'')]"

definition shiftMap :: "string \<Rightarrow> string option" where
  "shiftMap = map_of shiftMap_entries"

text \<open>
  JavaScript truthiness of a table lookup: \<open>undefined\<close> (no entry) and the empty
  string are falsy, every other string is truthy.
\<close>

definition truthy :: "string option \<Rightarrow> bool" where
  "truthy v = (case v of None \<Rightarrow> False | Some s \<Rightarrow> s \<noteq> [])"

definition is_lower :: "char \<Rightarrow> bool" where
  "is_lower c = (97 \<le> (of_char c :: nat) \<and> (of_char c :: nat) \<le> 122)"

definition is_upper :: "char \<Rightarrow> bool" where
  "is_upper c = (65 \<le> (of_char c :: nat) \<and> (of_char c :: nat) \<le> 90)"

text \<open>\<open>key.match(/[a-z]/)\<close>: some character of the key is a lower-case ASCII letter.\<close>

definition match_lower :: "string \<Rightarrow> bool" where
  "match_lower key = list_ex is_lower key"

text \<open>
  \<open>key.toUpperCase()\<close> on ASCII text; the decoder applies it to one-letter keys
  matching \<open>[a-z]\<close> only.
\<close>

definition upper_char :: "char \<Rightarrow> char" where
  "upper_char c = (if is_lower c then char_of ((of_char c :: nat) - 32) else c)"

definition toUpperCase :: "string \<Rightarrow> string" where
  "toUpperCase s = map upper_char s"

text \<open>\<open>getCharFromKeyCode\<close> (lines 241-268), branch for branch.\<close>

definition getCharFromKeyCode :: "nat \<Rightarrow> bool \<Rightarrow> bool \<Rightarrow> js_result" where
  "getCharFromKeyCode code isShiftPressed isCapsLock =
    (if truthy (keyCodeMap code) then
       (case keyCodeMap code of
          None \<Rightarrow> JStr ''''
        | Some key \<Rightarrow>
            if key = ''SPACE'' then JStr '' ''
            else if key = ''BACKSPACE'' then JNull
            else if key = ''ENTER'' then JStr [CHR 0x0A]
            else if key = ''TAB'' then JStr [CHR 0x09]
            else if length key = 1 \<and> match_lower key then
              JStr (if isShiftPressed \<noteq> isCapsLock then toUpperCase key else key)
            else if isShiftPressed \<and> truthy (shiftMap key) then
              (case shiftMap key of Some v \<Rightarrow> JStr v | None \<Rightarrow> JStr '''')
            else if length key = 1 then JStr key
            else JStr '''')
     else JStr '''')"

section \<open>Read loop of a keyboard worker (lines 468-541)\<close>

record KeyboardState =
  isShiftPressed :: bool
  isCapsLock :: bool

text \<open>Messages posted to the parent thread by \<open>parentPort.postMessage\<close>.\<close>

datatype message = ShiftMsg bool | CapsLockMsg bool | KeypressMsg js_result

text \<open>
  The body of \<open>readLoop\<close> once the three fields of the record are read
  (lines 512-525): the new modifier state and the messages posted, in order.
\<close>

definition handleEvent :: "nat \<Rightarrow> nat \<Rightarrow> int \<Rightarrow> KeyboardState \<Rightarrow> KeyboardState \<times> message list" where
  "handleEvent type code val st =
    (if type = 1 then
       if code = 42 then
         (st\<lparr>isShiftPressed := (val = 1)\<rparr>, [ShiftMsg (val = 1)])
       else if code = 58 then
         (if val = 1 then
            (st\<lparr>isCapsLock := \<not> isCapsLock st\<rparr>, [CapsLockMsg (\<not> isCapsLock st)])
          else (st, []))
       else if val = 1 then
         (st, [KeypressMsg (getCharFromKeyCode code (isShiftPressed st) (isCapsLock st))])
       else (st, [])
     else (st, []))"

text \<open>
  \<open>buffer.readUInt16LE(off)\<close> and \<open>buffer.readInt32LE(off)\<close> on the 24-byte
  buffer; the offsets used (16, 18, 20) are in range whenever 24 bytes were read.
\<close>

definition readUInt16LE :: "8 word list \<Rightarrow> nat \<Rightarrow> nat" where
  "readUInt16LE buf off = unat (buf ! off) + 256 * unat (buf ! (off + 1))"

definition readInt32LE :: "8 word list \<Rightarrow> nat \<Rightarrow> int" where
  "readInt32LE buf off =
    (let u = uint (buf ! off) + 256 * uint (buf ! (off + 1))
           + 65536 * uint (buf ! (off + 2)) + 16777216 * uint (buf ! (off + 3))
     in if u \<ge> 2147483648 then u - 4294967296 else u)"

text \<open>
  One successful \<open>fs.readSync\<close> of the loop: \<open>bytes\<close> is what the device delivered
  (\<open>bytesRead = length bytes\<close>, at most 24); a short read is skipped.
\<close>

definition readLoop_step :: "8 word list \<Rightarrow> KeyboardState \<Rightarrow> KeyboardState \<times> message list" where
  "readLoop_step bytes st =
    (if length bytes = 24 then
       handleEvent (readUInt16LE bytes 16) (readUInt16LE bytes 18) (readInt32LE bytes 20) st
     else (st, []))"

section \<open>Printer device path (lines 84-102)\<close>

definition printerPaths :: "string list" where
  "printerPaths =
    [''/dev/usb/lp0'', ''/dev/usb/lp1'', ''/dev/usb/lp2'', ''/dev/usb/lp3'',
     ''/dev/lp0'', ''/dev/lp1'', ''/dev/lp2'', ''/dev/lp3'']"

text \<open>
  The \<open>for\<close> loop over the candidates. \<open>existsSync\<close> is the file system's answer;
  the second component records the paths probed so far, in order.
\<close>

fun getDevicePath_loop :: "(string \<Rightarrow> bool) \<Rightarrow> string list \<Rightarrow> string list \<Rightarrow> string option \<times> string list" where
  "getDevicePath_loop existsSync [] probed = (None, probed)"
| "getDevicePath_loop existsSync (p # ps) probed =
     (if existsSync p then (Some p, probed @ [p])
      else getDevicePath_loop existsSync ps (probed @ [p]))"

definition getDevicePath :: "(string \<Rightarrow> bool) \<Rightarrow> string option \<times> string list" where
  "getDevicePath existsSync = getDevicePath_loop existsSync printerPaths []"

section \<open>Print dispatch: \<open>printToEpson\<close> (lines 141-238)\<close>

text \<open>
  Byte sequences are HOL strings (a \<open>char\<close> is one byte). A JavaScript string
  handed to \<open>Buffer.from\<close> is represented by its UTF-8 bytes, so that
  \<open>Buffer.from(s + '\n')\<close> is \<open>s @ [CHR 0x0A]\<close>.
\<close>

type_synonym bytes = string

text \<open>
  The buffer \<open>formattedText\<close> built for the direct write (lines 165-180). Its two
  inputs are the text to print and the string \<open>new Date().toLocaleString()\<close>
  evaluates to when the buffer is built.
\<close>

definition formattedText :: "string \<Rightarrow> string \<Rightarrow> bytes" where
  "formattedText now text = concat
    [[CHR 0x1B, CHR 0x40],
     [CHR 0x1B, CHR 0x61, CHR 0x01],
     [CHR 0x1B, CHR 0x21, CHR 0x30],
     ''PRINT TEST'' @ [CHR 0x0A],
     [CHR 0x1B, CHR 0x21, CHR 0x00],
     [CHR 0x1B, CHR 0x61, CHR 0x00],
     ''----------------'' @ [CHR 0x0A],
     text @ [CHR 0x0A],
     ''----------------'' @ [CHR 0x0A],
     [CHR 0x1B, CHR 0x61, CHR 0x01],
     now @ [CHR 0x0A],
     [CHR 0x1B, CHR 0x61, CHR 0x00],
     replicate 10 (CHR 0x0A),
     [CHR 0x1D, CHR 0x56, CHR 0x00]]"

text \<open>The calls made on the \<open>ThermalPrinter\<close> object of the fallback (lines 210-227).\<close>

datatype lib_call =
  AlignCenter | AlignLeft | Bold bool | SetTextSize nat nat | Println string | DrawLine | Cut

definition libraryJob :: "string \<Rightarrow> string \<Rightarrow> lib_call list" where
  "libraryJob now text =
    [AlignCenter, Bold True, SetTextSize 2 2, Println ''PRINT TEST'', SetTextSize 1 1,
     Bold False, DrawLine,
     AlignLeft, Println text, DrawLine,
     AlignCenter, Println now,
     Println (replicate 10 (CHR 0x0A)), Cut]"

text \<open>
  What the outside world answers during one call of \<open>printToEpson\<close> for the
  printer's device path: whether each file-system or library operation succeeds
  (\<open>False\<close>: it throws), and the two readings of the clock.
\<close>

record print_env =
  existsSync :: bool
  accessSync_ok :: bool
  openSync_ok :: bool
  writeSync_ok :: bool
  closeSync_ok :: bool
  date_direct :: string
  thermalPrinter_ok :: bool
  isPrinterConnected :: "bool option"
  libraryCalls_ok :: bool
  date_library :: string
  execute_ok :: bool

text \<open>The operations a call attempts, in the order it attempts them.\<close>

datatype io_event =
  ExistsSync | AccessSync
| OpenSync | WriteSync bytes | CloseSync
| NewThermalPrinter | IsPrinterConnected | LibraryCalls "lib_call list" | Execute

text \<open>
  The inner \<open>try\<close> block of the direct write (lines 160-188): success flag and
  operations attempted; a throw of any of the three calls leaves the block.
\<close>

definition directWrite :: "print_env \<Rightarrow> string \<Rightarrow> bool \<times> io_event list" where
  "directWrite env text =
    (if \<not> openSync_ok env then (False, [OpenSync])
     else if \<not> writeSync_ok env then
       (False, [OpenSync, WriteSync (formattedText (date_direct env) text)])
     else if \<not> closeSync_ok env then
       (False, [OpenSync, WriteSync (formattedText (date_direct env) text), CloseSync])
     else (True, [OpenSync, WriteSync (formattedText (date_direct env) text), CloseSync]))"

text \<open>
  The library transport (lines 190-232); every throw is caught by the outer
  \<open>catch\<close> (lines 233-237), which returns \<open>false\<close>.
\<close>

definition libraryFallback :: "print_env \<Rightarrow> string \<Rightarrow> bool \<times> io_event list" where
  "libraryFallback env text =
    (if \<not> thermalPrinter_ok env then (False, [NewThermalPrinter])
     else case isPrinterConnected env of
       None \<Rightarrow> (False, [NewThermalPrinter, IsPrinterConnected])
     | Some False \<Rightarrow> (False, [NewThermalPrinter, IsPrinterConnected])
     | Some True \<Rightarrow>
         if \<not> libraryCalls_ok env then
           (False, [NewThermalPrinter, IsPrinterConnected,
                    LibraryCalls (libraryJob (date_library env) text)])
         else if \<not> execute_ok env then
           (False, [NewThermalPrinter, IsPrinterConnected,
                    LibraryCalls (libraryJob (date_library env) text), Execute])
         else
           (True, [NewThermalPrinter, IsPrinterConnected,
                   LibraryCalls (libraryJob (date_library env) text), Execute]))"

definition printToEpson :: "print_env \<Rightarrow> string \<Rightarrow> bool \<times> io_event list" where
  "printToEpson env text =
    (if \<not> existsSync env then (False, [ExistsSync])
     else if \<not> accessSync_ok env then (False, [ExistsSync, AccessSync])
     else
       (case directWrite env text of
          (True, tr) \<Rightarrow> (True, [ExistsSync, AccessSync] @ tr)
        | (False, tr) \<Rightarrow>
            (case libraryFallback env text of
               (ok, tr') \<Rightarrow> (ok, [ExistsSync, AccessSync] @ tr @ tr'))))"

text \<open>The operations that belong to a transport (direct write or library).\<close>

fun is_transport :: "io_event \<Rightarrow> bool" where
  "is_transport ExistsSync = False"
| "is_transport AccessSync = False"
| "is_transport _ = True"

section \<open>Presence poll: \<open>detectEpsonPrinters\<close> and \<open>waitForPrinter\<close>\<close>














section \<open>Keyboard discovery: \<open>detectKeyboardDevices\<close> (lines 596-660)\<close>

text \<open>
  String helpers of JavaScript on ASCII text (device names and tool output).
\<close>

definition startsWith :: "string \<Rightarrow> string \<Rightarrow> bool" where
  "startsWith s p = (take (length p) s = p)"

fun includes_str :: "string \<Rightarrow> string \<Rightarrow> bool" where
  "includes_str [] sub = (sub = [])"
| "includes_str (c # cs) sub = (startsWith (c # cs) sub \<or> includes_str cs sub)"

definition lower_char :: "char \<Rightarrow> char" where
  "lower_char c = (if is_upper c then char_of ((of_char c :: nat) + 32) else c)"

definition toLowerCase :: "string \<Rightarrow> string" where
  "toLowerCase s = map lower_char s"

text \<open>\<open>s.split(sep)\<close> for a one-character separator: never the empty list.\<close>

fun split_on :: "char \<Rightarrow> string \<Rightarrow> string list" where
  "split_on sep [] = [[]]"
| "split_on sep (c # cs) =
     (if c = sep then [] # split_on sep cs
      else (case split_on sep cs of
              [] \<Rightarrow> [[c]]
            | l # ls \<Rightarrow> (c # l) # ls))"

definition is_space :: "char \<Rightarrow> bool" where
  "is_space c = (c \<in> set [CHR 0x09, CHR 0x0A, CHR 0x0B, CHR 0x0C, CHR 0x0D, CHR 0x20])"

definition trim :: "string \<Rightarrow> string" where
  "trim s = rev (dropWhile is_space (rev (dropWhile is_space s)))"

text \<open>
  The outside world of a discovery run: the three Node calls it makes.
  \<open>None\<close> is a call that throws (missing directory, tool not installed or
  exiting with a non-zero status).
\<close>

record node_world =
  readdirSync :: "string \<Rightarrow> string list option"
  execSync :: "string \<Rightarrow> string option"
  fs_existsSync :: "string \<Rightarrow> bool"

datatype node_call = Readdir string | Exec string | Exists string

text \<open>The array \<open>keyboardDevices\<close> and the calls made so far.\<close>

record detect_state =
  keyboardDevices :: "string list"
  calls :: "node_call list"

text \<open>The template strings \<open>`/dev/input/${device}`\<close> and \<open>`/dev/input/by-id/${device}`\<close>.\<close>

definition eventPath :: "string \<Rightarrow> string" where
  "eventPath device = ''/dev/input/'' @ device"

definition byIdPath :: "string \<Rightarrow> string" where
  "byIdPath device = ''/dev/input/by-id/'' @ device"

definition udevadm_cmd :: "string \<Rightarrow> string" where
  "udevadm_cmd dpath = ''udevadm info -a -n '' @ dpath @ '' | grep -i keyboard''"

text \<open>
  First strategy, the loop over the event devices (lines 604-616): a throwing
  \<open>execSync\<close> is caught inside the loop and the device is skipped.
\<close>

fun eventLoop :: "node_world \<Rightarrow> string list \<Rightarrow> detect_state \<Rightarrow> detect_state" where
  "eventLoop w [] st = st"
| "eventLoop w (device # rest) st =
     (let dpath = eventPath device;
          st' = st\<lparr>calls := calls st @ [Exec (udevadm_cmd dpath)]\<rparr>
      in case execSync w (udevadm_cmd dpath) of
           None \<Rightarrow> eventLoop w rest st'
         | Some deviceInfo \<Rightarrow>
             if includes_str deviceInfo ''keyboard'' then
               eventLoop w rest (st'\<lparr>keyboardDevices := keyboardDevices st' @ [dpath]\<rparr>)
             else eventLoop w rest st')"

text \<open>Second strategy (lines 619-633), with its own \<open>try\<close>/\<open>catch\<close>.\<close>

fun byIdLoop :: "node_world \<Rightarrow> string list \<Rightarrow> detect_state \<Rightarrow> detect_state" where
  "byIdLoop w [] st = st"
| "byIdLoop w (device # rest) st =
     (let dpath = byIdPath device;
          st' = st\<lparr>calls := calls st @ [Exists dpath]\<rparr>
      in if fs_existsSync w dpath then
           byIdLoop w rest (st'\<lparr>keyboardDevices := keyboardDevices st' @ [dpath]\<rparr>)
         else byIdLoop w rest st')"

definition byIdStrategy :: "node_world \<Rightarrow> detect_state \<Rightarrow> detect_state" where
  "byIdStrategy w st =
    (if keyboardDevices st = [] then
       (let st' = st\<lparr>calls := calls st @ [Readdir ''/dev/input/by-id'']\<rparr>
        in case readdirSync w ''/dev/input/by-id'' of
             None \<Rightarrow> st'
           | Some files \<Rightarrow>
               byIdLoop w (filter (\<lambda>file. includes_str (toLowerCase file) ''kbd'') files) st')
     else st)"

text \<open>
  Third strategy (lines 636-652). The loop reads \<open>lines[i + 1]\<close> after a line
  naming a keyboard and skips it; when that line is the last one,
  \<open>lines[i + 1]\<close> is \<open>undefined\<close>, \<open>.trim()\<close> throws and the \<open>catch\<close> of the
  strategy ends the loop, keeping what was pushed.
\<close>

fun evtestLoop :: "node_world \<Rightarrow> string list \<Rightarrow> detect_state \<Rightarrow> detect_state" where
  "evtestLoop w [] st = st"
| "evtestLoop w [l] st = st"
| "evtestLoop w (l # next # rest) st =
     (if includes_str (toLowerCase l) ''keyboard'' then
        (let dpath = hd (split_on (CHR '' '') (trim next))
         in if dpath = [] then evtestLoop w rest st
            else
              (let st' = st\<lparr>calls := calls st @ [Exists dpath]\<rparr>
               in if fs_existsSync w dpath then
                    evtestLoop w rest (st'\<lparr>keyboardDevices := keyboardDevices st' @ [dpath]\<rparr>)
                  else evtestLoop w rest st'))
      else evtestLoop w (next # rest) st)"

definition evtestStrategy :: "node_world \<Rightarrow> detect_state \<Rightarrow> detect_state" where
  "evtestStrategy w st =
    (if keyboardDevices st = [] then
       (let st' = st\<lparr>calls := calls st @ [Exec ''evtest --list-devices'']\<rparr>
        in case execSync w ''evtest --list-devices'' of
             None \<Rightarrow> st'
           | Some evtestOutput \<Rightarrow> evtestLoop w (split_on (CHR 0x0A) evtestOutput) st')
     else st)"

text \<open>
  The whole function. \<open>fs.readdirSync('/dev/input')\<close> stands directly in the
  outer \<open>try\<close>: when it throws, the outer \<open>catch\<close> returns the empty array.
  The result is the returned array and the calls made.
\<close>

definition detectKeyboardDevices :: "node_world \<Rightarrow> string list \<times> node_call list" where
  "detectKeyboardDevices w =
    (let st0 = \<lparr>keyboardDevices = [], calls = [Readdir ''/dev/input'']\<rparr>
     in case readdirSync w ''/dev/input'' of
          None \<Rightarrow> ([], calls st0)
        | Some files \<Rightarrow>
            (let eventDevices = filter (\<lambda>file. startsWith file ''event'') files;
                 st3 = evtestStrategy w (byIdStrategy w (eventLoop w eventDevices st0))
             in (keyboardDevices st3, calls st3)))"

definition w_no_input_dir :: node_world where
  "w_no_input_dir =
    \<lparr>readdirSync = (\<lambda>d. if d = ''/dev/input/by-id'' then Some [''usb-kbd''] else None),
     execSync = (\<lambda>c. None),
     fs_existsSync = (\<lambda>p. True)\<rparr>"

definition w_by_id_only :: node_world where
  "w_by_id_only =
    \<lparr>readdirSync = (\<lambda>d. if d = ''/dev/input'' then Some [''event0'', ''mice'']
                         else if d = ''/dev/input/by-id'' then Some [''usb-kbd''] else None),
     execSync = (\<lambda>c. None),
     fs_existsSync = (\<lambda>p. True)\<rparr>"

definition w_evtest_only :: node_world where
  "w_evtest_only =
    \<lparr>readdirSync = (\<lambda>d. if d = ''/dev/input'' then Some [''event0''] else None),
     execSync = (\<lambda>c. if c = ''evtest --list-devices''
                       then Some (''/dev/input/event0:  AT Keyboard'' @ [CHR 0x0A] @ ''/dev/input/event0 x'' @ [CHR 0x0A])
                       else None),
     fs_existsSync = (\<lambda>p. True)\<rparr>"


text \<open>What each strategy finds, stated without the state threading.\<close>

definition eventMatches :: "node_world \<Rightarrow> string list \<Rightarrow> string list" where
  "eventMatches w files =
    map eventPath
      (filter (\<lambda>d. case execSync w (udevadm_cmd (eventPath d)) of
                     None \<Rightarrow> False
                   | Some deviceInfo \<Rightarrow> includes_str deviceInfo ''keyboard'')
         (filter (\<lambda>file. startsWith file ''event'') files))"

definition byIdMatches :: "node_world \<Rightarrow> string list" where
  "byIdMatches w =
    (case readdirSync w ''/dev/input/by-id'' of
       None \<Rightarrow> []
     | Some files \<Rightarrow>
         filter (fs_existsSync w)
           (map byIdPath
              (filter (\<lambda>file. includes_str (toLowerCase file) ''kbd'') files)))"

fun evtestPaths :: "node_world \<Rightarrow> string list \<Rightarrow> string list" where
  "evtestPaths w [] = []"
| "evtestPaths w [l] = []"
| "evtestPaths w (l # next # rest) =
     (if includes_str (toLowerCase l) ''keyboard'' then
        (let dpath = hd (split_on (CHR '' '') (trim next))
         in (if dpath \<noteq> [] \<and> fs_existsSync w dpath then [dpath] else [])
            @ evtestPaths w rest)
      else evtestPaths w (next # rest))"

definition evtestMatches :: "node_world \<Rightarrow> string list" where
  "evtestMatches w =
    (case execSync w ''evtest --list-devices'' of
       None \<Rightarrow> []
     | Some evtestOutput \<Rightarrow> evtestPaths w (split_on (CHR 0x0A) evtestOutput))"

text \<open>Sample environments for the concrete cases below.\<close>

definition env_ok :: print_env where
  "env_ok = \<lparr>existsSync = True, accessSync_ok = True, openSync_ok = True, writeSync_ok = True,
     closeSync_ok = True, date_direct = ''1/2/2025, 10:00:00 AM'', thermalPrinter_ok = True,
     isPrinterConnected = Some True, libraryCalls_ok = True,
     date_library = ''1/2/2025, 10:00:01 AM'', execute_ok = True\<rparr>"



section \<open>Concurrent submissions to the printer\<close>




































section \<open>Properties of the key decoder\<close>

lemma shiftMap_key_length: "shiftMap key = Some v \<Longrightarrow> length key = 1"
  unfolding shiftMap_def
  by (drule map_of_SomeD) (auto simp: shiftMap_entries_def)

lemma keyCodeMap_nonempty: "keyCodeMap code = Some key \<Longrightarrow> key \<noteq> []"
  unfolding keyCodeMap_def
  by (drule map_of_SomeD) (auto simp: keyCodeMap_entries_def)

lemma keyCodeMap_30: "keyCodeMap 30 = Some ''a''"
  by (simp add: keyCodeMap_def keyCodeMap_entries_def)

lemma upper_char_a: "upper_char (CHR ''a'') = CHR ''A''"
  by code_simp

lemma is_lower_a: "is_lower (CHR ''a'')"
  by (simp add: is_lower_def)

lemma upper_char_is_upper: "is_lower c \<Longrightarrow> is_upper (upper_char c)"
proof -
  assume l: "is_lower c"
  define n where "n = (of_char c :: nat)"
  from l have r: "97 \<le> n" "n \<le> 122" by (simp_all add: is_lower_def n_def)
  then have "(n - 32) mod 256 = n - 32" by simp
  with r have "65 \<le> (n - 32) mod 256 \<and> (n - 32) mod 256 \<le> 90" by arith
  with l show ?thesis by (simp add: is_upper_def upper_char_def n_def)
qed

lemma lower_not_upper: "is_lower c \<Longrightarrow> \<not> is_upper c"
  unfolding is_lower_def is_upper_def by simp

lemma lower_key_not_named:
  "is_lower c \<Longrightarrow> [c] \<noteq> ''SPACE'' \<and> [c] \<noteq> ''BACKSPACE'' \<and> [c] \<noteq> ''ENTER'' \<and> [c] \<noteq> ''TAB''"
  by simp

text \<open>
  C4. For a key code whose table entry is a single lower-case letter, the decoded
  character is that letter in upper case exactly when shift and caps lock differ,
  and the letter itself when they agree.
\<close>

theorem letter_case_xor:
  "keyCodeMap code = Some [c] \<and> is_lower c \<longrightarrow>
     getCharFromKeyCode code shift caps = JStr [if shift \<noteq> caps then upper_char c else c]
     \<and> is_upper (upper_char c) \<and> \<not> is_upper c"
  by (simp add: getCharFromKeyCode_def truthy_def match_lower_def toUpperCase_def
        upper_char_is_upper lower_not_upper)

theorem letter_case_xor_witness:
  "getCharFromKeyCode 30 True False = JStr ''A'' \<and> getCharFromKeyCode 30 True True = JStr ''a''
   \<and> getCharFromKeyCode 30 False True = JStr ''A'' \<and> getCharFromKeyCode 30 False False = JStr ''a''"
  using letter_case_xor [of 30 "CHR ''a''" True False] letter_case_xor [of 30 "CHR ''a''" True True]
    letter_case_xor [of 30 "CHR ''a''" False True] letter_case_xor [of 30 "CHR ''a''" False False]
  by (simp add: keyCodeMap_30 is_lower_a upper_char_a)

lemma keyCodeMap_28: "keyCodeMap 28 = Some ''ENTER''"
  by (simp add: keyCodeMap_def keyCodeMap_entries_def)
lemma keyCodeMap_14: "keyCodeMap 14 = Some ''BACKSPACE''"
  by (simp add: keyCodeMap_def keyCodeMap_entries_def)
lemma keyCodeMap_55: "keyCodeMap 55 = None"
  by (simp add: keyCodeMap_def keyCodeMap_entries_def)
lemma keyCodeMap_111: "keyCodeMap 111 = Some ''DEL''"
  by (simp add: keyCodeMap_def keyCodeMap_entries_def)
lemma keyCodeMap_103: "keyCodeMap 103 = Some ''UP''"
  by (simp add: keyCodeMap_def keyCodeMap_entries_def)

text \<open>
  C5. A key code without a table entry decodes to the empty string (no output) under
  every modifier state; that result differs from the line terminator decoded for
  Enter and from \<open>null\<close>, the value decoded for Backspace.
\<close>

theorem unmapped_no_output:
  "keyCodeMap code = None \<longrightarrow>
     getCharFromKeyCode code shift caps = JStr ''''
     \<and> getCharFromKeyCode code shift caps \<noteq> getCharFromKeyCode 28 shift' caps'
     \<and> getCharFromKeyCode code shift caps \<noteq> getCharFromKeyCode 14 shift' caps'
     \<and> getCharFromKeyCode 28 shift' caps' = JStr [CHR 0x0A]
     \<and> getCharFromKeyCode 14 shift' caps' = JNull"
  by (simp add: getCharFromKeyCode_def truthy_def keyCodeMap_28 keyCodeMap_14)

theorem unmapped_no_output_witness:
  "getCharFromKeyCode 55 True False = JStr '''' \<and> getCharFromKeyCode 28 False False = JStr [CHR 0x0A]
   \<and> getCharFromKeyCode 14 False False = JNull"
  using unmapped_no_output [of 55 True False False False]
  by (simp add: keyCodeMap_55)

text \<open>
  C10. A key code whose table entry is a name of more than one character, other than
  SPACE, BACKSPACE, ENTER and TAB, decodes to the empty string under every modifier
  state, as an unmapped code does.
\<close>

theorem named_key_no_output:
  "keyCodeMap code = Some key \<and> length key > 1
     \<and> key \<notin> {''SPACE'', ''BACKSPACE'', ''ENTER'', ''TAB''} \<longrightarrow>
   getCharFromKeyCode code shift caps = JStr ''''"
proof (intro impI, elim conjE)
  assume k: "keyCodeMap code = Some key" and len: "length key > 1"
    and named: "key \<notin> {''SPACE'', ''BACKSPACE'', ''ENTER'', ''TAB''}"
  have sm: "shiftMap key = None"
  proof (cases "shiftMap key")
    case (Some v)
    from shiftMap_key_length [OF this] len show ?thesis by simp
  qed simp
  from len have ne: "key \<noteq> []" and l1: "length key \<noteq> 1" by auto
  from named have n: "key \<noteq> ''SPACE''" "key \<noteq> ''BACKSPACE''" "key \<noteq> ''ENTER''" "key \<noteq> ''TAB''"
    by auto
  show "getCharFromKeyCode code shift caps = JStr ''''"
    unfolding getCharFromKeyCode_def using k sm ne l1 n
    by (simp add: truthy_def)
qed

theorem named_key_no_output_witness:
  "getCharFromKeyCode 111 True False = JStr '''' \<and> getCharFromKeyCode 103 False True = JStr ''''"
  using named_key_no_output [of 111 "''DEL''" True False] named_key_no_output [of 103 "''UP''" False True]
  by (simp add: keyCodeMap_111 keyCodeMap_103)

section \<open>Properties of the read loop\<close>

lemma other_value_ignored:
  "code \<noteq> 42 \<Longrightarrow> val \<noteq> 1 \<Longrightarrow> handleEvent type code val st = (st, [])"
  by (simp add: handleEvent_def)

lemma key_up_only_releases_shift:
  "handleEvent type code 0 st =
     (if type = 1 \<and> code = 42 then (st\<lparr>isShiftPressed := False\<rparr>, [ShiftMsg False]) else (st, []))"
  by (simp add: handleEvent_def)

text \<open>
  C6. A key event whose value is neither 0 nor 1 is specified to leave the
  modifier state unchanged. For the left shift key (code 42) the loop stores
  \<open>value = 1\<close> as the new shift state, so an auto-repeat record (value 2) of a held
  shift key clears \<open>isShiftPressed\<close> and posts a shift message.
\<close>

theorem shift_autorepeat_releases_shift:
  "readLoop_step (replicate 16 0 @ [1, 0, 42, 0, 2, 0, 0, 0]) \<lparr>isShiftPressed = True, isCapsLock = False\<rparr>
     = (\<lparr>isShiftPressed = False, isCapsLock = False\<rparr>, [ShiftMsg False])"
  by (simp add: readLoop_step_def handleEvent_def readUInt16LE_def readInt32LE_def nth_append)

section \<open>Properties of the device path resolution\<close>


lemma getDevicePath_loop_find:
  "fst (getDevicePath_loop ex ps probed) = List.find ex ps"
  by (induction ps arbitrary: probed) auto

lemma getDevicePath_loop_none_probes_all:
  "fst (getDevicePath_loop ex ps probed) = None \<Longrightarrow> snd (getDevicePath_loop ex ps probed) = probed @ ps"
  by (induction ps arbitrary: probed) (auto split: if_splits)

text \<open>
  C8. The candidate loop returns the first path, in list order, that exists, and
  \<open>null\<close> exactly when none exists, in which case every candidate was probed.
  \<open>getDevicePath\<close> runs it on the fixed list; when only \<open>/dev/usb/lp1\<close> exists
  it returns that path after probing \<open>/dev/usb/lp0\<close> and \<open>/dev/usb/lp1\<close>.
\<close>

theorem getDevicePath_first_existing:
  "(fst (getDevicePath_loop ex ps []) = Some p \<longleftrightarrow>
      (\<exists>i < length ps. ps ! i = p \<and> ex p \<and> (\<forall>j < i. \<not> ex (ps ! j))))
   \<and> (fst (getDevicePath_loop ex ps []) = None \<longleftrightarrow> (\<forall>q \<in> set ps. \<not> ex q))
   \<and> (fst (getDevicePath_loop ex ps []) = None \<longrightarrow> snd (getDevicePath_loop ex ps []) = ps)
   \<and> getDevicePath ex = getDevicePath_loop ex printerPaths []
   \<and> ((\<forall>q \<in> set printerPaths. ex q \<longleftrightarrow> q = ''/dev/usb/lp1'') \<longrightarrow>
        getDevicePath ex = (Some ''/dev/usb/lp1'', [''/dev/usb/lp0'', ''/dev/usb/lp1'']))"
proof (intro conjI)
  show "fst (getDevicePath_loop ex ps []) = Some p \<longleftrightarrow>
      (\<exists>i < length ps. ps ! i = p \<and> ex p \<and> (\<forall>j < i. \<not> ex (ps ! j)))"
    unfolding getDevicePath_loop_find find_Some_iff by auto
  show "fst (getDevicePath_loop ex ps []) = None \<longleftrightarrow> (\<forall>q \<in> set ps. \<not> ex q)"
    unfolding getDevicePath_loop_find find_None_iff by auto
  show "fst (getDevicePath_loop ex ps []) = None \<longrightarrow> snd (getDevicePath_loop ex ps []) = ps"
    using getDevicePath_loop_none_probes_all [of ex ps "[]"] by simp
  show "getDevicePath ex = getDevicePath_loop ex printerPaths []"
    by (simp add: getDevicePath_def)
  show "(\<forall>q \<in> set printerPaths. ex q \<longleftrightarrow> q = ''/dev/usb/lp1'') \<longrightarrow>
        getDevicePath ex = (Some ''/dev/usb/lp1'', [''/dev/usb/lp0'', ''/dev/usb/lp1''])"
    by (simp add: getDevicePath_def printerPaths_def)
qed

theorem getDevicePath_first_existing_witness:
  "getDevicePath_loop (\<lambda>p. p = ''/dev/usb/lp1'') [''/dev/usb/lp0'', ''/dev/usb/lp1''] []
     = (Some ''/dev/usb/lp1'', [''/dev/usb/lp0'', ''/dev/usb/lp1''])
   \<and> getDevicePath_loop (\<lambda>p. False) [''/dev/usb/lp0'', ''/dev/usb/lp1''] []
     = (None, [''/dev/usb/lp0'', ''/dev/usb/lp1''])
   \<and> getDevicePath (\<lambda>p. p = ''/dev/usb/lp1'') = (Some ''/dev/usb/lp1'', [''/dev/usb/lp0'', ''/dev/usb/lp1''])
   \<and> getDevicePath (\<lambda>p. False) = (None, printerPaths)"
  using getDevicePath_first_existing [of "\<lambda>p. p = ''/dev/usb/lp1''" "[''/dev/usb/lp0'', ''/dev/usb/lp1'']" "''/dev/usb/lp1''"]
    getDevicePath_first_existing [of "\<lambda>p. False" "[''/dev/usb/lp0'', ''/dev/usb/lp1'']" "''/dev/usb/lp1''"]
    getDevicePath_first_existing [of "\<lambda>p. False" printerPaths "''/dev/usb/lp1''"]
  by (simp add: getDevicePath_def printerPaths_def)

section \<open>Properties of the print dispatch\<close>

lemma fst_libraryFallback:
  "fst (libraryFallback env text) \<longleftrightarrow>
     thermalPrinter_ok env \<and> isPrinterConnected env = Some True \<and> libraryCalls_ok env \<and> execute_ok env"
  by (auto simp: libraryFallback_def split: option.splits bool.splits)

lemma hd_libraryFallback: "hd (snd (libraryFallback env text)) = NewThermalPrinter"
  by (auto simp: libraryFallback_def split: option.splits bool.splits)

lemma fst_directWrite:
  "fst (directWrite env text) \<longleftrightarrow> openSync_ok env \<and> writeSync_ok env \<and> closeSync_ok env"
  by (auto simp: directWrite_def)

lemma hd_directWrite: "hd (snd (directWrite env text)) = OpenSync"
  by (auto simp: directWrite_def)

lemma directWrite_nonempty: "snd (directWrite env text) \<noteq> []"
  by (auto simp: directWrite_def)

text \<open>
  C2. \<open>printToEpson\<close> proceeds in order. If the device path does not exist or is not
  writable it returns \<open>false\<close> and attempts no transport. Otherwise the direct
  write is attempted first; when open, write and close succeed the whole buffer
  went out in one write and the result is \<open>true\<close>. When any of the three fails the
  error is not propagated: the library transport is attempted next, and the result
  is \<open>true\<close> exactly when that transport succeeds, \<open>false\<close> otherwise.
\<close>

theorem printToEpson_dispatch_order:
  "(\<not> existsSync env \<or> \<not> accessSync_ok env \<longrightarrow>
      fst (printToEpson env text) = False
      \<and> \<not> list_ex is_transport (snd (printToEpson env text)))
   \<and> (existsSync env \<and> accessSync_ok env \<longrightarrow>
      take 3 (snd (printToEpson env text)) = [ExistsSync, AccessSync, OpenSync])
   \<and> (existsSync env \<and> accessSync_ok env \<and> openSync_ok env \<and> writeSync_ok env
        \<and> closeSync_ok env \<longrightarrow>
      printToEpson env text =
        (True, [ExistsSync, AccessSync, OpenSync,
                WriteSync (formattedText (date_direct env) text), CloseSync]))
   \<and> (existsSync env \<and> accessSync_ok env
        \<and> \<not> (openSync_ok env \<and> writeSync_ok env \<and> closeSync_ok env) \<longrightarrow>
      printToEpson env text =
        (fst (libraryFallback env text),
         [ExistsSync, AccessSync] @ snd (directWrite env text) @ snd (libraryFallback env text))
      \<and> hd (snd (libraryFallback env text)) = NewThermalPrinter
      \<and> (fst (printToEpson env text) \<longleftrightarrow>
           thermalPrinter_ok env \<and> isPrinterConnected env = Some True
           \<and> libraryCalls_ok env \<and> execute_ok env))"
proof (intro conjI impI)
  assume "\<not> existsSync env \<or> \<not> accessSync_ok env"
  then show "fst (printToEpson env text) = False"
    by (auto simp: printToEpson_def)
next
  assume "\<not> existsSync env \<or> \<not> accessSync_ok env"
  then show "\<not> list_ex is_transport (snd (printToEpson env text))"
    by (auto simp: printToEpson_def)
next
  assume a: "existsSync env \<and> accessSync_ok env"
  obtain ok tr where d: "directWrite env text = (ok, tr)" by (cases "directWrite env text")
  with hd_directWrite [of env "text"] directWrite_nonempty [of env "text"]
  obtain tr' where tr: "tr = OpenSync # tr'" by (cases tr) auto
  obtain ok' tr2 where l: "libraryFallback env text = (ok', tr2)" by (cases "libraryFallback env text")
  show "take 3 (snd (printToEpson env text)) = [ExistsSync, AccessSync, OpenSync]"
    using a d tr l by (cases ok) (simp_all add: printToEpson_def)
next
  assume "existsSync env \<and> accessSync_ok env \<and> openSync_ok env \<and> writeSync_ok env \<and> closeSync_ok env"
  then show "printToEpson env text =
        (True, [ExistsSync, AccessSync, OpenSync,
                WriteSync (formattedText (date_direct env) text), CloseSync])"
    by (simp add: printToEpson_def directWrite_def)
next
  assume a: "existsSync env \<and> accessSync_ok env
        \<and> \<not> (openSync_ok env \<and> writeSync_ok env \<and> closeSync_ok env)"
  then have "\<not> fst (directWrite env text)" by (simp add: fst_directWrite)
  then obtain tr where d: "directWrite env text = (False, tr)" by (cases "directWrite env text") auto
  obtain ok' tr2 where l: "libraryFallback env text = (ok', tr2)" by (cases "libraryFallback env text")
  show p: "printToEpson env text =
        (fst (libraryFallback env text),
         [ExistsSync, AccessSync] @ snd (directWrite env text) @ snd (libraryFallback env text))"
    using a d l by (simp add: printToEpson_def)
  show "hd (snd (libraryFallback env text)) = NewThermalPrinter"
    by (rule hd_libraryFallback)
  show "fst (printToEpson env text) \<longleftrightarrow>
           thermalPrinter_ok env \<and> isPrinterConnected env = Some True
           \<and> libraryCalls_ok env \<and> execute_ok env"
    using p by (simp add: fst_libraryFallback)
qed

theorem printToEpson_dispatch_order_witness:
  "printToEpson (env_ok\<lparr>existsSync := False\<rparr>) ''hi'' = (False, [ExistsSync])
   \<and> printToEpson (env_ok\<lparr>accessSync_ok := False\<rparr>) ''hi'' = (False, [ExistsSync, AccessSync])
   \<and> printToEpson env_ok ''hi'' =
       (True, [ExistsSync, AccessSync, OpenSync,
               WriteSync (formattedText ''1/2/2025, 10:00:00 AM'' ''hi''), CloseSync])
   \<and> printToEpson (env_ok\<lparr>writeSync_ok := False\<rparr>) ''hi'' =
       (True, [ExistsSync, AccessSync, OpenSync,
               WriteSync (formattedText ''1/2/2025, 10:00:00 AM'' ''hi''),
               NewThermalPrinter, IsPrinterConnected,
               LibraryCalls (libraryJob ''1/2/2025, 10:00:01 AM'' ''hi''), Execute])
   \<and> fst (printToEpson (env_ok\<lparr>openSync_ok := False, execute_ok := False\<rparr>) ''hi'') = False"
  using printToEpson_dispatch_order [of "env_ok\<lparr>existsSync := False\<rparr>" "''hi''"]
    printToEpson_dispatch_order [of "env_ok\<lparr>accessSync_ok := False\<rparr>" "''hi''"]
    printToEpson_dispatch_order [of env_ok "''hi''"]
    printToEpson_dispatch_order [of "env_ok\<lparr>writeSync_ok := False\<rparr>" "''hi''"]
    printToEpson_dispatch_order [of "env_ok\<lparr>openSync_ok := False, execute_ok := False\<rparr>" "''hi''"]
  by (simp add: env_ok_def printToEpson_def directWrite_def libraryFallback_def)

text \<open>
  C1, as amended. The bytes built for the direct write are a function of the text
  and of the local time string read while the buffer is built: for the same text,
  two buffers are equal exactly when the two time strings are equal, and for the
  same time string, exactly when the texts are equal.
\<close>

theorem formattedText_clock:
  "(formattedText now1 text = formattedText now2 text \<longleftrightarrow> now1 = now2)
   \<and> (formattedText now text1 = formattedText now text2 \<longleftrightarrow> text1 = text2)"
  by (simp add: formattedText_def)

theorem formattedText_clock_witness:
  "formattedText ''10:00'' ''hi'' = formattedText ''10:00'' ''hi''
   \<and> formattedText ''10:00'' ''hi'' \<noteq> formattedText ''10:01'' ''hi''"
  using formattedText_clock [of "''10:00''" "''hi''" "''10:01''" "''10:00''" "''hi''" "''hi''"]
  by simp

text \<open>
  C1 as stated fails: the same text encoded at two different clock readings gives
  two different byte sequences.
\<close>

theorem formattedText_clock_counterexample:
  "formattedText ''1/2/2025, 10:00:00 AM'' ''hi'' \<noteq> formattedText ''1/2/2025, 10:00:01 AM'' ''hi''"
  by (simp add: formattedText_def)

section \<open>Properties of the presence poll\<close>











section \<open>Properties of the keyboard discovery\<close>

lemma eventLoop_devices:
  "keyboardDevices (eventLoop w ds st) =
     keyboardDevices st @ map eventPath
       (filter (\<lambda>d. case execSync w (udevadm_cmd (eventPath d)) of
                      None \<Rightarrow> False
                    | Some deviceInfo \<Rightarrow> includes_str deviceInfo ''keyboard'') ds)"
  by (induction ds arbitrary: st) (simp_all add: Let_def split: option.splits)

lemma eventLoop_calls:
  "calls (eventLoop w ds st) =
     calls st @ map (\<lambda>d. Exec (udevadm_cmd (eventPath d))) ds"
  by (induction ds arbitrary: st) (simp_all add: Let_def split: option.splits)

lemma byIdLoop_devices:
  "keyboardDevices (byIdLoop w ds st) =
     keyboardDevices st @ filter (fs_existsSync w) (map byIdPath ds)"
  by (induction ds arbitrary: st) (simp_all add: Let_def)

lemma byIdLoop_calls:
  "calls (byIdLoop w ds st) = calls st @ map (\<lambda>d. Exists (byIdPath d)) ds"
  by (induction ds arbitrary: st) (simp_all add: Let_def)

lemma evtestLoop_devices:
  "keyboardDevices (evtestLoop w ls st) = keyboardDevices st @ evtestPaths w ls"
  by (induction w ls st rule: evtestLoop.induct) (simp_all add: Let_def)

lemma evtestLoop_calls_Exec:
  "Exec c \<in> set (calls (evtestLoop w ls st)) \<longleftrightarrow> Exec c \<in> set (calls st)"
  by (induction w ls st rule: evtestLoop.induct) (simp_all add: Let_def)

lemma evtestLoop_calls_Readdir:
  "Readdir d \<in> set (calls (evtestLoop w ls st)) \<longleftrightarrow> Readdir d \<in> set (calls st)"
  by (induction w ls st rule: evtestLoop.induct) (simp_all add: Let_def)

lemma byIdStrategy_devices:
  "keyboardDevices (byIdStrategy w st) =
     (if keyboardDevices st = [] then byIdMatches w else keyboardDevices st)"
  by (simp add: byIdStrategy_def byIdMatches_def Let_def byIdLoop_devices split: option.splits)

lemma byIdStrategy_Readdir:
  "Readdir d \<in> set (calls (byIdStrategy w st)) \<longleftrightarrow>
     Readdir d \<in> set (calls st) \<or> (keyboardDevices st = [] \<and> d = ''/dev/input/by-id'')"
  by (auto simp: byIdStrategy_def Let_def byIdLoop_calls split: option.splits)

lemma byIdStrategy_Exec:
  "Exec c \<in> set (calls (byIdStrategy w st)) \<longleftrightarrow> Exec c \<in> set (calls st)"
  by (auto simp: byIdStrategy_def Let_def byIdLoop_calls split: option.splits)

lemma evtestStrategy_devices:
  "keyboardDevices (evtestStrategy w st) =
     (if keyboardDevices st = [] then evtestMatches w else keyboardDevices st)"
  by (simp add: evtestStrategy_def evtestMatches_def Let_def evtestLoop_devices split: option.splits)

lemma evtestStrategy_Readdir:
  "Readdir d \<in> set (calls (evtestStrategy w st)) \<longleftrightarrow> Readdir d \<in> set (calls st)"
  by (simp add: evtestStrategy_def Let_def evtestLoop_calls_Readdir split: option.splits)

lemma evtestStrategy_Exec:
  "Exec c \<in> set (calls (evtestStrategy w st)) \<longleftrightarrow>
     Exec c \<in> set (calls st) \<or> (keyboardDevices st = [] \<and> c = ''evtest --list-devices'')"
  by (auto simp: evtestStrategy_def Let_def evtestLoop_calls_Exec split: option.splits)

lemma udevadm_cmd_not_evtest:
  "udevadm_cmd p \<noteq> ''evtest --list-devices''" "''evtest --list-devices'' \<noteq> udevadm_cmd p"
  by (simp_all add: udevadm_cmd_def)

text \<open>
  C7, as amended. No failure leaves \<open>detectKeyboardDevices\<close> as an error. When
  \<open>/dev/input\<close> cannot be listed the result is the empty array at once and no
  other strategy is attempted. When it can be listed, a failing property query
  counts as no match for that device; the by-id strategy is attempted exactly when
  the first strategy matched nothing, the evtest strategy exactly when the first
  two matched nothing, a failure of either counting as no match; the result is
  what the first strategy with a match found.
\<close>

theorem discovery_failures:
  "(readdirSync w ''/dev/input'' = None \<longrightarrow>
      detectKeyboardDevices w = ([], [Readdir ''/dev/input'']))
   \<and> (readdirSync w ''/dev/input'' = Some files \<longrightarrow>
        fst (detectKeyboardDevices w) =
          (if eventMatches w files \<noteq> [] then eventMatches w files
           else if byIdMatches w \<noteq> [] then byIdMatches w
           else evtestMatches w)
        \<and> (Readdir ''/dev/input/by-id'' \<in> set (snd (detectKeyboardDevices w)) \<longleftrightarrow>
             eventMatches w files = [])
        \<and> (Exec ''evtest --list-devices'' \<in> set (snd (detectKeyboardDevices w)) \<longleftrightarrow>
             eventMatches w files = [] \<and> byIdMatches w = []))"
proof (intro conjI impI)
  assume "readdirSync w ''/dev/input'' = None"
  then show "detectKeyboardDevices w = ([], [Readdir ''/dev/input''])"
    by (simp add: detectKeyboardDevices_def)
next
  assume r: "readdirSync w ''/dev/input'' = Some files"
  define st1 where "st1 = eventLoop w (filter (\<lambda>file. startsWith file ''event'') files)
      \<lparr>keyboardDevices = [], calls = [Readdir ''/dev/input'']\<rparr>"
  have d: "detectKeyboardDevices w =
      (keyboardDevices (evtestStrategy w (byIdStrategy w st1)),
       calls (evtestStrategy w (byIdStrategy w st1)))"
    using r by (simp add: detectKeyboardDevices_def Let_def st1_def)
  have k1: "keyboardDevices st1 = eventMatches w files"
    by (simp add: st1_def eventLoop_devices eventMatches_def)
  have c1: "calls st1 = Readdir ''/dev/input'' #
      map (\<lambda>d. Exec (udevadm_cmd (eventPath d))) (filter (\<lambda>file. startsWith file ''event'') files)"
    by (simp add: st1_def eventLoop_calls)
  show "fst (detectKeyboardDevices w) =
          (if eventMatches w files \<noteq> [] then eventMatches w files
           else if byIdMatches w \<noteq> [] then byIdMatches w
           else evtestMatches w)"
    by (simp add: d evtestStrategy_devices byIdStrategy_devices k1)
  show "Readdir ''/dev/input/by-id'' \<in> set (snd (detectKeyboardDevices w)) \<longleftrightarrow>
             eventMatches w files = []"
    by (auto simp: d evtestStrategy_Readdir byIdStrategy_Readdir k1 c1)
  show "Exec ''evtest --list-devices'' \<in> set (snd (detectKeyboardDevices w)) \<longleftrightarrow>
             eventMatches w files = [] \<and> byIdMatches w = []"
    by (auto simp: d evtestStrategy_Exec byIdStrategy_Exec byIdStrategy_devices k1 c1
          udevadm_cmd_not_evtest)
qed

theorem discovery_failures_witness:
  "detectKeyboardDevices w_no_input_dir = ([], [Readdir ''/dev/input''])
   \<and> fst (detectKeyboardDevices w_by_id_only) = [''/dev/input/by-id/usb-kbd'']
   \<and> Readdir ''/dev/input/by-id'' \<in> set (snd (detectKeyboardDevices w_by_id_only))
   \<and> Exec ''evtest --list-devices'' \<notin> set (snd (detectKeyboardDevices w_by_id_only))"
  using discovery_failures [of w_no_input_dir "[]"]
    discovery_failures [of w_by_id_only "[''event0'', ''mice'']"]
  by (simp add: w_no_input_dir_def w_by_id_only_def eventMatches_def byIdMatches_def
        startsWith_def toLowerCase_def lower_char_def is_upper_def eventPath_def byIdPath_def)

text \<open>
  C7 as stated fails: when listing \<open>/dev/input\<close> throws, the by-id directory
  (which here holds an existing keyboard entry) is never read.
\<close>

theorem discovery_aborts_on_input_dir:
  "detectKeyboardDevices w_no_input_dir = ([], [Readdir ''/dev/input''])"
  by (simp add: detectKeyboardDevices_def w_no_input_dir_def)

section \<open>Properties of concurrent submissions\<close>




















end
